theory Spec2Isabelle
  imports Complex_Main "HOL-Library.AList"
begin

section \<open>Exceptions\<close>

text \<open>
  The exceptions the modelled code can raise. A function of the model that can raise
  returns \<open>error + 'a\<close>, with \<open>Inl\<close> for the exception.
\<close>

datatype error = AttributeError | TypeError | IndexError | EOFError | OverflowError

section \<open>Floats\<close>

text \<open>
  A Python float is a binary double: a number \<open>m / 2 ^ k\<close> whose significand has at
  most 53 bits. The literals of the sources are the doubles nearest to the decimals
  written there.
\<close>

type_synonym double = "int \<times> nat"

definition double_value :: "double \<Rightarrow> rat" where
  "double_value f = (case f of (m, k) \<Rightarrow> of_int m / 2 ^ k)"

definition float_1_2 :: double where
  "float_1_2 = (5404319552844595, 52)"

definition float_0_25 :: double where
  "float_0_25 = (1, 2)"

definition float_0_75 :: double where
  "float_0_75 = (3, 2)"

definition float_0_2 :: double where
  "float_0_2 = (3602879701896397, 54)"

definition float_0_5 :: double where
  "float_0_5 = (1, 1)"

definition float_0_3 :: double where
  "float_0_3 = (5404319552844595, 54)"

text \<open>\<open>int.bit_length()\<close> of a natural number.\<close>

fun bit_length :: "nat \<Rightarrow> nat" where
  "bit_length n = (if n = 0 then 0 else Suc (bit_length (n div 2)))"

declare bit_length.simps [simp del]

text \<open>
  The conversion of an integer to a double and the rounding of an exact product both
  round to 53 significant bits, to the nearest and in a tie to the even significand.
  \<open>round_to_double n\<close> is that rounding on the integer \<open>n\<close>, without the bound of
  the exponent, which \<open>float_of_int\<close> and \<open>int_times_float\<close> check.
\<close>

definition round_to_double :: "int \<Rightarrow> int" where
  "round_to_double n =
     (let a = \<bar>n\<bar>; b = bit_length (nat a)
      in if b \<le> 53 then n
         else
           (let s = b - 53; q = a div 2 ^ s; r = a mod 2 ^ s; half = 2 ^ (s - 1);
                q' = (if r > half \<or> (r = half \<and> odd q) then q + 1 else q)
            in sgn n * (q' * 2 ^ s)))"

text \<open>
  The conversion of an integer to a double, as in \<open>x * 1.2\<close> or
  \<open>float('inf') - x\<close> for an integer \<open>x\<close>: the integer is rounded, and Python raises
  \<open>OverflowError\<close> when the rounded value is \<open>2 ^ 1024\<close> or more in magnitude, that
  is beyond the largest double.
\<close>

definition float_of_int :: "int \<Rightarrow> error + int" where
  "float_of_int x =
     (let d = round_to_double x
      in if \<bar>d\<bar> \<ge> 2 ^ 1024 then Inl OverflowError else Inr d)"

text \<open>
  \<open>int(x * f)\<close> for an integer \<open>x\<close> and a double \<open>f = m / 2 ^ k\<close>: \<open>x\<close> is converted
  to a double, the product of the two doubles is rounded to a double, and \<open>int\<close>
  truncates that towards zero. A product of \<open>2 ^ 1024\<close> or more in magnitude is
  infinity, of which \<open>int\<close> raises \<open>OverflowError\<close>.
\<close>

definition int_times_float :: "int \<Rightarrow> double \<Rightarrow> error + int" where
  "int_times_float x f =
     (case f of (m, k) \<Rightarrow>
        (case float_of_int x of
           Inl err \<Rightarrow> Inl err
         | Inr h \<Rightarrow>
             (let p = round_to_double (h * m)
              in if \<bar>p\<bar> \<ge> 2 ^ (1024 + k) then Inl OverflowError
                 else Inr (sgn p * (\<bar>p\<bar> div 2 ^ k)))))"

section \<open>Characters (character.py)\<close>

text \<open>
  Modelled from the spec: the class \<open>Weapon\<close> of \<open>rpg_game/weapon.py\<close> is not among the
  sources. The spec describes a weapon as a name and a flat damage bonus, and
  \<open>character.py\<close> builds it as \<open>Weapon(weapon_name, weapon_damage)\<close> and reads
  \<open>.name\<close> and \<open>.damage_bonus\<close>.
\<close>

record weapon =
  weapon_name :: string
  damage_bonus :: int

text \<open>
  The class \<open>Character\<close>. The field \<open>health\<close> is the private attribute \<open>_health\<close>.
  The subclasses extend the record, so every method of \<open>Character\<close> is a function on
  \<open>'a character_scheme\<close> and applies to the subclasses as well.
\<close>

record character =
  name :: string
  health :: int
  damage :: int
  weapon :: "weapon option"
  is_boss :: bool
  level :: int
  experience :: int
  experience_to_next_level :: int
  debug_mode :: bool

definition calculate_experience_to_next_level :: "'a character_scheme \<Rightarrow> int" where
  "calculate_experience_to_next_level c = 100 * level c"

text \<open>
  \<open>Character.__init__\<close>: the weapon is built only when \<open>weapon_name\<close> is truthy
  (neither \<open>None\<close> nor the empty string).
\<close>

definition make_weapon :: "string option \<Rightarrow> int \<Rightarrow> weapon option" where
  "make_weapon wn wd =
     (case wn of
        None \<Rightarrow> None
      | Some n \<Rightarrow> if n = [] then None else Some \<lparr>weapon_name = n, damage_bonus = wd\<rparr>)"

definition Character_init ::
  "string \<Rightarrow> int \<Rightarrow> int \<Rightarrow> string option \<Rightarrow> int \<Rightarrow> int \<Rightarrow> int \<Rightarrow> bool \<Rightarrow> character" where
  "Character_init n h d wn wd lv xp dbg =
     \<lparr>name = n, health = h, damage = d, weapon = make_weapon wn wd, is_boss = False,
      level = lv, experience = xp, experience_to_next_level = 100 * lv, debug_mode = dbg\<rparr>"

definition get_health :: "'a character_scheme \<Rightarrow> int" where
  "get_health c = health c"

definition set_health :: "'a character_scheme \<Rightarrow> int \<Rightarrow> 'a character_scheme" where
  "set_health c new_health = c\<lparr>health := max 0 new_health\<rparr>"

definition take_damage :: "'a character_scheme \<Rightarrow> int \<Rightarrow> 'a character_scheme" where
  "take_damage c dmg = set_health c (get_health c - dmg)"

definition calculate_damage :: "'a character_scheme \<Rightarrow> int \<Rightarrow> int" where
  "calculate_damage c base_damage =
     (case weapon c of
        Some w \<Rightarrow> base_damage + damage_bonus w
      | None \<Rightarrow> base_damage)"

definition is_alive :: "'a character_scheme \<Rightarrow> bool" where
  "is_alive c = (get_health c > 0)"

text \<open>
  \<open>level_up\<close> multiplies the health and the damage by the float 1.2 and can raise
  \<open>OverflowError\<close> there. An exception ends the method and, uncaught, the run; the
  state it leaves behind is not part of the result.
\<close>

definition level_up :: "'a character_scheme \<Rightarrow> error + 'a character_scheme" where
  "level_up c =
     (let c1 = c\<lparr>level := level c + 1\<rparr>
      in case int_times_float (health c1) float_1_2 of
           Inl err \<Rightarrow> Inl err
         | Inr h \<Rightarrow>
             (let c2 = c1\<lparr>health := h\<rparr>
              in case int_times_float (damage c2) float_1_2 of
                   Inl err \<Rightarrow> Inl err
                 | Inr d \<Rightarrow>
                     (let c3 = c2\<lparr>damage := d\<rparr>;
                          c4 = c3\<lparr>experience := 0\<rparr>
                      in Inr (c4\<lparr>experience_to_next_level :=
                                   calculate_experience_to_next_level c4\<rparr>))))"

definition gain_experience ::
  "'a character_scheme \<Rightarrow> int \<Rightarrow> error + (bool \<times> 'a character_scheme)" where
  "gain_experience c amount =
     (let c1 = c\<lparr>experience := experience c + amount\<rparr>
      in if experience c1 \<ge> experience_to_next_level c1
         then (case level_up c1 of
                 Inl err \<Rightarrow> Inl err
               | Inr c2 \<Rightarrow> Inr (True, c2))
         else Inr (False, c1))"

section \<open>Inventory (inventory.py)\<close>

text \<open>
  The classes \<open>Item\<close>, \<open>Consumable\<close> and \<open>Armor\<close> with their constructor
  arguments (name, description, value, and the heal amount or defence bonus). The
  parameter \<open>item\<close> of \<open>equip_item\<close> is also tested against \<open>Weapon\<close>, so a
  weapon is the fourth kind of object an inventory method can receive.
\<close>

datatype item =
    Item string string int
  | Consumable string string int int
  | Armor string string int int
  | WeaponItem weapon

fun item_name :: "item \<Rightarrow> string" where
  "item_name (Item n d v) = n"
| "item_name (Consumable n d v h) = n"
| "item_name (Armor n d v b) = n"
| "item_name (WeaponItem w) = weapon_name w"

text \<open>\<open>isinstance(item, Weapon)\<close>, \<open>isinstance(item, Armor)\<close>, \<open>isinstance(item, Consumable)\<close>.\<close>

fun is_Weapon :: "item \<Rightarrow> bool" where
  "is_Weapon (WeaponItem w) = True"
| "is_Weapon _ = False"

fun is_Armor :: "item \<Rightarrow> bool" where
  "is_Armor (Armor n d v b) = True"
| "is_Armor _ = False"

fun is_Consumable :: "item \<Rightarrow> bool" where
  "is_Consumable (Consumable n d v h) = True"
| "is_Consumable _ = False"

text \<open>
  One entry of \<open>Inventory.items\<close>: the dictionary \<open>{'item': item, 'quantity': n}\<close>.
\<close>

record stack =
  item :: item
  quantity :: int

text \<open>
  \<open>Inventory.items\<close> is a Python dictionary from item names to stacks. It keeps the
  order of insertion, which \<open>Game.use_item\<close> enumerates, so it is an association list:
  \<open>AList.update\<close> overwrites a key in place or appends a new one at the end, and
  \<open>AList.delete\<close> removes a key. The dictionary \<open>equipment\<close> has exactly the keys
  \<open>'weapon'\<close> and \<open>'armor'\<close>; it is the two fields \<open>equipment_weapon\<close> and
  \<open>equipment_armor\<close>, \<open>None\<close> for an empty slot.
\<close>

record inventory =
  items :: "(string \<times> stack) list"
  equipment_weapon :: "item option"
  equipment_armor :: "item option"
  gold :: int

definition Inventory_init :: inventory where
  "Inventory_init = \<lparr>items = [], equipment_weapon = None, equipment_armor = None, gold = 0\<rparr>"

definition add_item :: "inventory \<Rightarrow> item \<Rightarrow> int \<Rightarrow> inventory" where
  "add_item invt it qty =
     (case map_of (items invt) (item_name it) of
        Some st \<Rightarrow>
          invt\<lparr>items := AList.update (item_name it) (st\<lparr>quantity := quantity st + qty\<rparr>) (items invt)\<rparr>
      | None \<Rightarrow>
          invt\<lparr>items := AList.update (item_name it) \<lparr>item = it, quantity = qty\<rparr> (items invt)\<rparr>)"

definition remove_item :: "inventory \<Rightarrow> string \<Rightarrow> int \<Rightarrow> bool \<times> inventory" where
  "remove_item invt item_name' qty =
     (case map_of (items invt) item_name' of
        Some st \<Rightarrow>
          if quantity st \<ge> qty then
            (let st' = st\<lparr>quantity := quantity st - qty\<rparr>
             in if quantity st' = 0
                then (True, invt\<lparr>items := AList.delete item_name' (items invt)\<rparr>)
                else (True, invt\<lparr>items := AList.update item_name' st' (items invt)\<rparr>))
          else (False, invt)
      | None \<Rightarrow> (False, invt))"

definition equip_item :: "inventory \<Rightarrow> item \<Rightarrow> bool \<times> inventory" where
  "equip_item invt it =
     (if is_Weapon it then (True, invt\<lparr>equipment_weapon := Some it\<rparr>)
      else if is_Armor it then (True, invt\<lparr>equipment_armor := Some it\<rparr>)
      else (False, invt))"

definition use_consumable :: "inventory \<Rightarrow> item \<Rightarrow> bool \<times> inventory" where
  "use_consumable invt it =
     (if map_of (items invt) (item_name it) \<noteq> None \<and> is_Consumable it
      then (case remove_item invt (item_name it) 1 of
              (True, invt') \<Rightarrow> (True, invt')
            | (False, invt') \<Rightarrow> (False, invt'))
      else (False, invt))"

text \<open>
  \<open>get_total_value\<close> iterates over \<open>self.items.items()\<close>, whose elements are the pairs
  (key, entry): the loop variable \<open>item\<close> is bound to the key, a string, and
  \<open>quantity\<close> to the entry, a dictionary. The values the loop handles are therefore
  dynamically typed; \<open>pyval\<close> lists the kinds that occur, \<open>getattr_value\<close> is the
  attribute access \<open>.value\<close> and \<open>py_mul\<close> the multiplication of an integer with such
  a value.
\<close>

datatype pyval = PyInt int | PyStr string | PyDict stack | PyObj item

fun getattr_value :: "pyval \<Rightarrow> error + int" where
  "getattr_value (PyObj (Item n d v)) = Inr v"
| "getattr_value (PyObj (Consumable n d v h)) = Inr v"
| "getattr_value (PyObj (Armor n d v b)) = Inr v"
| "getattr_value (PyObj (WeaponItem w)) = Inl AttributeError"
| "getattr_value (PyInt i) = Inl AttributeError"
| "getattr_value (PyStr s) = Inl AttributeError"
| "getattr_value (PyDict d) = Inl AttributeError"

fun py_mul :: "int \<Rightarrow> pyval \<Rightarrow> error + int" where
  "py_mul a (PyInt b) = Inr (a * b)"
| "py_mul a _ = Inl TypeError"

fun get_total_value_loop :: "(string \<times> stack) list \<Rightarrow> int \<Rightarrow> error + int" where
  "get_total_value_loop [] acc = Inr acc"
| "get_total_value_loop ((k, entry) # rest) acc =
     (let item' = PyStr k; quantity' = PyDict entry in
      case getattr_value item' of
        Inl e \<Rightarrow> Inl e
      | Inr v \<Rightarrow>
          (case py_mul v quantity' of
             Inl e \<Rightarrow> Inl e
           | Inr p \<Rightarrow> get_total_value_loop rest (acc + p)))"

definition get_total_value :: "inventory \<Rightarrow> error + int" where
  "get_total_value invt = get_total_value_loop (items invt) (gold invt)"

text \<open>
  The invariant of the specification on \<open>items\<close>: every stack of the dictionary has
  a positive quantity.
\<close>

definition quantities_positive :: "inventory \<Rightarrow> bool" where
  "quantities_positive invt = (\<forall>k st. map_of (items invt) k = Some st \<longrightarrow> 0 < quantity st)"

section \<open>Strings, input and random draws\<close>

text \<open>
  Characters are code points below 256. \<open>str.lower\<close> maps the upper-case letters of
  that range (A to Z, and 192 to 222 except the multiplication sign 215) to the code
  point 32 above; \<open>str.strip\<close> removes the leading and trailing characters for which
  \<open>str.isspace\<close> holds.
\<close>

definition lower_char :: "char \<Rightarrow> char" where
  "lower_char c =
     (let n = (of_char c :: nat)
      in if (65 \<le> n \<and> n \<le> 90) \<or> (192 \<le> n \<and> n \<le> 222 \<and> n \<noteq> 215)
         then char_of (n + 32) else c)"

definition lower :: "string \<Rightarrow> string" where
  "lower s = map lower_char s"

definition isspace :: "char \<Rightarrow> bool" where
  "isspace c = ((of_char c :: nat) \<in> {9, 10, 11, 12, 13, 28, 29, 30, 31, 32, 133, 160})"

definition strip :: "string \<Rightarrow> string" where
  "strip s = rev (dropWhile isspace (rev (dropWhile isspace s)))"

text \<open>
  \<open>str(n)\<close> for a natural number: its decimal digits.
\<close>

fun str :: "nat \<Rightarrow> string" where
  "str n = (if n < 10 then [char_of (48 + n)] else str (n div 10) @ [char_of (48 + n mod 10)])"

declare str.simps [simp del]

text \<open>
  The lines that standard input still holds are a list; \<open>input()\<close> takes the first and
  raises \<open>EOFError\<close> when none is left. \<open>Game.get_valid_input\<close> reads lines until one,
  stripped, is among the options.
\<close>

fun get_valid_input :: "string list \<Rightarrow> string list \<Rightarrow> error + (string \<times> string list)" where
  "get_valid_input [] options = Inl EOFError"
| "get_valid_input (line # rest) options =
     (let user_input = strip line
      in if user_input \<in> set options then Inr (user_input, rest)
         else get_valid_input rest options)"

text \<open>
  The pseudo-random source is the sequence of the values that the coming calls of
  \<open>random.random()\<close> return, each in the interval from 0 (included) to 1 (excluded);
  a call takes the first and leaves the rest.
\<close>

type_synonym rng = "nat \<Rightarrow> rat"

definition random :: "rng \<Rightarrow> rat \<times> rng" where
  "random r = (r 0, \<lambda>n. r (Suc n))"

section \<open>Combat log (game_logger.py)\<close>

text \<open>
  An entry of \<open>log_history\<close>. Its key \<open>'damage'\<close> is the field \<open>signed_damage\<close>; the
  key \<open>'timestamp'\<close>, a reading of the wall clock, is left out. The message printed
  to the console is not part of the state.
\<close>

record log_entry =
  attacker :: string
  defender :: string
  signed_damage :: int
  ability :: string

record logger =
  log_to_console :: bool
  log_history :: "log_entry list"

definition GameLogger_init :: logger where
  "GameLogger_init = \<lparr>log_to_console = True, log_history = []\<rparr>"

text \<open>
  The parameter \<open>ability\<close> defaults to \<open>None\<close>; \<open>None\<close> and the empty string are
  falsy and are recorded as \<open>'basic_attack'\<close>.
\<close>

definition log_combat ::
  "logger \<Rightarrow> 'a character_scheme \<Rightarrow> 'b character_scheme \<Rightarrow> int \<Rightarrow> string option \<Rightarrow> logger" where
  "log_combat lg att dfn dmg ab =
     lg\<lparr>log_history := log_history lg @
        [\<lparr>attacker = name att, defender = name dfn, signed_damage = dmg,
          ability = (case ab of
                       None \<Rightarrow> ''basic_attack''
                     | Some a \<Rightarrow> if a = [] then ''basic_attack'' else a)\<rparr>]\<rparr>"

definition get_combat_history :: "logger \<Rightarrow> log_entry list" where
  "get_combat_history lg = log_history lg"

section \<open>Attacks (character.py, boss.py, sidekick.py, villain.py)\<close>

text \<open>
  A method that mutates its target and the logger returns the new target and the new
  logger next to its result. \<open>Character.attack\<close> is also the attack of the player and
  of \<open>Boss\<close>, which does not override it.
\<close>

definition Character_attack ::
  "'a character_scheme \<Rightarrow> 'b character_scheme \<Rightarrow> logger \<Rightarrow> int \<times> 'b character_scheme \<times> logger" where
  "Character_attack self target lg =
     (let total_damage = calculate_damage self (damage self);
          lg' = log_combat lg self target total_damage None;
          target' = take_damage target total_damage
      in (total_damage, target', lg'))"

text \<open>\<open>Boss\<close> adds no attribute to \<open>Character\<close>; its constructor sets \<open>is_boss\<close>.\<close>

type_synonym boss = character

definition Boss_init :: "string \<Rightarrow> int \<Rightarrow> int \<Rightarrow> string option \<Rightarrow> int \<Rightarrow> boss" where
  "Boss_init n h d wn wd = (Character_init n h d wn wd 1 0 False)\<lparr>is_boss := True\<rparr>"

record sidekick = character +
  support_ability :: string
  is_sidekick :: bool


text \<open>
  \<open>getattr(target, '_max_health', float('inf'))\<close>: no class of the sources has an
  attribute \<open>_max_health\<close>, so the default, infinity, is what the call returns;
  \<open>None\<close> stands for it. \<open>py_min_cap\<close> is
  \<open>min(heal_amount, max_health - target.get_health())\<close>: with infinity the
  subtraction converts the health to a double, which can raise \<open>OverflowError\<close>,
  and is infinity otherwise, so that the minimum is the heal amount.
\<close>

definition getattr_max_health :: "'a character_scheme \<Rightarrow> int option" where
  "getattr_max_health c = None"

definition py_min_cap :: "int \<Rightarrow> int option \<Rightarrow> int \<Rightarrow> error + int" where
  "py_min_cap heal_amount max_health h =
     (case max_health of
        None \<Rightarrow>
          (case float_of_int h of
             Inl err \<Rightarrow> Inl err
           | Inr d \<Rightarrow> Inr heal_amount)
      | Some m \<Rightarrow> Inr (min heal_amount (m - h)))"

definition use_support_ability ::
  "sidekick \<Rightarrow> 'a character_scheme \<Rightarrow> logger \<Rightarrow> error + ('a character_scheme \<times> logger)" where
  "use_support_ability self target lg =
     (if lower (support_ability self) = ''heal'' then
        (let heal_amount = (if name self = ''Healing Spirit'' then 15 else damage self div 2);
             target_health = get_health target + heal_amount;
             max_health = getattr_max_health target
         in case py_min_cap heal_amount max_health (get_health target) of
              Inl err \<Rightarrow> Inl err
            | Inr actual_heal \<Rightarrow>
                if actual_heal > 0
                then (let target' = set_health target target_health
                      in Inr (target', log_combat lg self target' (- actual_heal)
                                         (Some (support_ability self))))
                else Inr (target, lg))
      else Inr (target, lg))"

definition Sidekick_attack ::
  "sidekick \<Rightarrow> 'a character_scheme \<Rightarrow> logger \<Rightarrow> error + (int \<times> 'a character_scheme \<times> logger)" where
  "Sidekick_attack self target lg =
     (case int_times_float (damage self) float_0_75 of
        Inl err \<Rightarrow> Inl err
      | Inr reduced_damage \<Rightarrow>
          (let total_damage = calculate_damage self reduced_damage;
               target' = take_damage target total_damage;
               lg' = log_combat lg self target' total_damage None
           in Inr (total_damage, target', lg')))"

record villain = character +
  special_ability :: string
  is_villain :: bool


definition use_special_ability ::
  "villain \<Rightarrow> 'a character_scheme \<Rightarrow> logger \<Rightarrow> int \<times> 'a character_scheme \<times> logger" where
  "use_special_ability self target lg =
     (if lower (special_ability self) = ''dark magic'' then
        (let base_damage = damage self * 2;
             total_damage = calculate_damage self base_damage;
             target' = take_damage target total_damage;
             lg' = log_combat lg self target' total_damage (Some (special_ability self))
         in (total_damage, target', lg'))
      else (0, target, lg))"

definition Villain_attack ::
  "villain \<Rightarrow> 'a character_scheme \<Rightarrow> logger \<Rightarrow> rng \<Rightarrow>
     error + ((int \<times> 'a character_scheme \<times> logger) \<times> rng)" where
  "Villain_attack self target lg r =
     (let (x, r') = random r
      in if x < double_value float_0_2 then Inr (use_special_ability self target lg, r')
         else
           (case int_times_float (damage self) float_0_25 of
              Inl err \<Rightarrow> Inl err
            | Inr bonus_damage \<Rightarrow>
                (let total_damage = calculate_damage self (damage self + bonus_damage);
                     target' = take_damage target total_damage;
                     lg' = log_combat lg self target' total_damage None
                 in Inr ((total_damage, target', lg'), r'))))"

section \<open>The game and its turn loop (game.py)\<close>

text \<open>
  The enemy of an encounter is an instance of \<open>Boss\<close> or of \<open>Villain\<close>; a call of one
  of its methods is dispatched on the class.
\<close>

datatype enemy = Boss boss | Villain villain

fun enemy_health :: "enemy \<Rightarrow> int" where
  "enemy_health (Boss b) = get_health b"
| "enemy_health (Villain v) = get_health v"

fun enemy_damage :: "enemy \<Rightarrow> int" where
  "enemy_damage (Boss b) = damage b"
| "enemy_damage (Villain v) = damage v"

fun enemy_name :: "enemy \<Rightarrow> string" where
  "enemy_name (Boss b) = name b"
| "enemy_name (Villain v) = name v"

text \<open>\<open>enemy.attack(player, self.logger)\<close>; only the attack of a villain draws a random number.\<close>

fun enemy_attack ::
  "enemy \<Rightarrow> 'a character_scheme \<Rightarrow> logger \<Rightarrow> rng \<Rightarrow>
     error + ((int \<times> 'a character_scheme \<times> logger) \<times> rng)" where
  "enemy_attack (Boss b) target lg r = Inr (Character_attack b target lg, r)"
| "enemy_attack (Villain v) target lg r = Villain_attack v target lg r"

text \<open>\<open>player.attack(enemy, self.logger)\<close>.\<close>

fun attack_enemy :: "character \<Rightarrow> enemy \<Rightarrow> logger \<Rightarrow> int \<times> enemy \<times> logger" where
  "attack_enemy p (Boss b) lg = (let (d, b', lg') = Character_attack p b lg in (d, Boss b', lg'))"
| "attack_enemy p (Villain v) lg = (let (d, v', lg') = Character_attack p v lg in (d, Villain v', lg'))"

text \<open>
  The calls that one round of the turn loop makes, in order. The list \<open>calls\<close> of the
  game below records them; it is not a field of the source and nothing reads it.
\<close>

datatype call = PlayerAttack | EnemyAttack | UseItem | SidekickAction | ViewInventory
  | GainExperience int | AddLoot

text \<open>
  The class \<open>Game\<close> with the attributes that combat reads or writes (\<open>game_debug_mode\<close>
  is \<open>debug_mode\<close>; the list \<open>bosses\<close> and \<open>current_boss_index\<close> are not used by
  combat, which receives its enemy as an argument). \<open>player\<close> is the character that
  \<open>handle_boss_battles\<close> passes to \<open>combat\<close>, and \<open>combat\<close> passes on to \<open>use_item\<close>.
  \<open>stdin\<close> and \<open>rng\<close> are the environment: the lines still to be read and the random
  draws to come. Printing, \<open>clear_screen\<close>, \<open>press_enter\<close> and \<open>print_border\<close>
  (of \<open>rpg_game.utils.console\<close>, which is not among the sources) only display and are
  not modelled.
\<close>

record game =
  player :: character
  sidekicks :: "sidekick list"
  inventory :: inventory
  logger :: logger
  game_debug_mode :: bool
  stdin :: "string list"
  rng :: rng
  calls :: "call list"

text \<open>
  Indexing a list, \<open>xs[i]\<close>: an integer index counts from the end when negative and
  raises \<open>IndexError\<close> out of range; any other index raises \<open>TypeError\<close>.
\<close>

fun py_getitem :: "'a list \<Rightarrow> pyval \<Rightarrow> error + 'a" where
  "py_getitem xs (PyInt i) =
     (if 0 \<le> i \<and> i < int (length xs) then Inr (xs ! nat i)
      else if i < 0 \<and> - int (length xs) \<le> i then Inr (xs ! nat (int (length xs) + i))
      else Inl IndexError)"
| "py_getitem xs _ = Inl TypeError"

fun getattr_heal_amount :: "item \<Rightarrow> error + int" where
  "getattr_heal_amount (Consumable n d v h) = Inr h"
| "getattr_heal_amount _ = Inl AttributeError"

text \<open>
  \<open>Game.use_item\<close>. The value that \<open>get_valid_input\<close> returns is a string, and the
  list of consumables is indexed with it as it is.
\<close>

definition use_item :: "game \<Rightarrow> error + game" where
  "use_item g =
     (let consumables = filter is_Consumable (map (\<lambda>(item_name', item_data). item item_data) (items (inventory g)))
      in if consumables = [] then Inr g
         else
           case get_valid_input (stdin g) (map (\<lambda>i. str (i + 1)) [0..<length consumables]) of
             Inl err \<Rightarrow> Inl err
           | Inr (choice, rest) \<Rightarrow>
               (let g1 = g\<lparr>stdin := rest\<rparr>
                in case py_getitem consumables (PyStr choice) of
                     Inl err \<Rightarrow> Inl err
                   | Inr it \<Rightarrow>
                       (case use_consumable (inventory g1) it of
                          (True, invt') \<Rightarrow>
                            (case getattr_heal_amount it of
                               Inl err \<Rightarrow> Inl err
                             | Inr h \<Rightarrow>
                                 Inr (g1\<lparr>inventory := invt',
                                         player := set_health (player g1) (get_health (player g1) + h)\<rparr>))
                        | (False, invt') \<Rightarrow> Inr (g1\<lparr>inventory := invt'\<rparr>))))"

text \<open>
  \<open>Game.add_loot\<close>: the gold first, then one draw for the potion and one for the armor.
\<close>

definition add_loot :: "game \<Rightarrow> enemy \<Rightarrow> game" where
  "add_loot g e =
     (let gold' = enemy_damage e * 5;
          invt1 = (inventory g)\<lparr>gold := gold (inventory g) + gold'\<rparr>;
          (x1, r1) = random (rng g);
          invt2 = (if x1 < double_value float_0_5
                   then add_item invt1 (Consumable ''Health Potion'' ''Restores 20 health'' 10 20) 1
                   else invt1);
          (x2, r2) = random r1;
          invt3 = (if x2 < double_value float_0_3
                   then (let defense = enemy_damage e div 2
                         in add_item invt2
                              (Armor (enemy_name e @ [CHR 0x27] @ ''s Armor'')
                                 (''Armor dropped by '' @ enemy_name e) 50 defense) 1)
                   else invt2)
      in g\<lparr>inventory := invt3, rng := r2, calls := calls g @ [AddLoot]\<rparr>)"

text \<open>
  The options of the combat menu: \<open>"1"\<close>, \<open>"2"\<close>, \<open>"3"\<close> when there is a sidekick, and
  the inventory option, numbered after them.
\<close>

definition combat_options :: "game \<Rightarrow> string list \<times> string" where
  "combat_options g =
     (let options = [''1'', ''2''] @ (if sidekicks g \<noteq> [] then [''3''] else []);
          inventory_option = str (length options + 1)
      in (options @ [inventory_option], inventory_option))"

text \<open>
  The end of the loop body: the turn of the enemy, when it is still alive. The first
  component of the result is \<open>Some b\<close> when the body returns \<open>b\<close> and \<open>None\<close> when the
  loop goes on.
\<close>

definition enemy_turn :: "game \<Rightarrow> enemy \<Rightarrow> error + (bool option \<times> game \<times> enemy)" where
  "enemy_turn g e =
     (if enemy_health e > 0 then
        (case enemy_attack e (player g) (logger g) (rng g) of
           Inl err \<Rightarrow> Inl err
         | Inr ((damage_received, p', lg'), r') \<Rightarrow>
             (let g' = g\<lparr>player := p', logger := lg', rng := r', calls := calls g @ [EnemyAttack]\<rparr>
              in if get_health p' \<le> 0 then Inr (Some False, g', e) else Inr (None, g', e)))
      else Inr (None, g, e))"

text \<open>One pass through the body of the \<open>while\<close> loop of \<open>Game.combat\<close>.\<close>

definition combat_round :: "game \<Rightarrow> enemy \<Rightarrow> error + (bool option \<times> game \<times> enemy)" where
  "combat_round g e =
     (let (options, inventory_option) = combat_options g
      in case get_valid_input (stdin g) options of
           Inl err \<Rightarrow> Inl err
         | Inr (choice, rest) \<Rightarrow>
             (let g0 = g\<lparr>stdin := rest\<rparr>
              in if choice = ''1'' then
                   (let (damage_dealt, e', lg') = attack_enemy (player g0) e (logger g0);
                        g1 = g0\<lparr>logger := lg', calls := calls g0 @ [PlayerAttack]\<rparr>
                    in if enemy_health e' \<le> 0 then
                         (let xp_gain = enemy_damage e' * 10
                          in case gain_experience (player g1) xp_gain of
                               Inl err \<Rightarrow> Inl err
                             | Inr (leveled, p') \<Rightarrow>
                                 (let g2 = g1\<lparr>player := p',
                                             calls := calls g1 @ [GainExperience xp_gain]\<rparr>
                                  in Inr (Some True, add_loot g2 e', e')))
                       else enemy_turn g1 e')
                 else if choice = ''2'' then
                   (case use_item (g0\<lparr>calls := calls g0 @ [UseItem]\<rparr>) of
                      Inl err \<Rightarrow> Inl err
                    | Inr g1 \<Rightarrow> Inr (None, g1, e))
                 else if choice = ''3'' \<and> sidekicks g0 \<noteq> [] then
                   (let sidekick' = hd (sidekicks g0)
                    in case use_support_ability sidekick' (player g0) (logger g0) of
                         Inl err \<Rightarrow> Inl err
                       | Inr (p', lg') \<Rightarrow>
                           (let g1 = g0\<lparr>player := p', logger := lg',
                                       calls := calls g0 @ [SidekickAction]\<rparr>
                            in enemy_turn g1 e))
                 else if choice = inventory_option then
                   Inr (None, g0\<lparr>calls := calls g0 @ [ViewInventory]\<rparr>, e)
                 else enemy_turn g0 e))"

text \<open>
  Reading a line makes standard input shorter; this is what ends the loop below.
\<close>

lemma get_valid_input_length:
  "get_valid_input ls opts = Inr (c, rest) \<Longrightarrow> length rest < length ls"
  by (induction ls) (auto simp: Let_def split: if_splits)

lemma get_valid_input_member:
  "get_valid_input ls opts = Inr (c, rest) \<Longrightarrow> c \<in> set opts"
  by (induction ls) (auto simp: Let_def split: if_splits)

lemma use_item_stdin:
  "use_item g = Inr g' \<Longrightarrow> length (stdin g') \<le> length (stdin g)"
  unfolding use_item_def
  by (auto simp: Let_def split: if_splits sum.splits prod.splits bool.splits dest: get_valid_input_length)

lemma enemy_turn_stdin: "enemy_turn g e = Inr (r, g', e') \<Longrightarrow> stdin g' = stdin g"
  unfolding enemy_turn_def
  by (auto simp: Let_def split: if_splits prod.splits sum.splits)

lemma combat_round_stdin:
  "combat_round g e = Inr (None, g', e') \<Longrightarrow> length (stdin g') < length (stdin g)"
  unfolding combat_round_def
  by (auto simp: Let_def split: if_splits sum.splits prod.splits
      dest!: get_valid_input_length use_item_stdin enemy_turn_stdin)

text \<open>
  The loop of \<open>Game.combat\<close>. Every pass reads at least one line, so the loop ends
  when standard input does, with \<open>EOFError\<close> at the latest. When the condition of
  the loop fails the method returns no value (\<open>None\<close>).
\<close>

function combat :: "game \<Rightarrow> enemy \<Rightarrow> error + (bool option \<times> game \<times> enemy)" where
  "combat g e =
     (if get_health (player g) > 0 \<and> enemy_health e > 0 then
        (case combat_round g e of
           Inl err \<Rightarrow> Inl err
         | Inr (Some b, g', e') \<Rightarrow> Inr (Some b, g', e')
         | Inr (None, g', e') \<Rightarrow> combat g' e')
      else Inr (None, g, e))"
  by pat_completeness auto
termination
  by (relation "measure (\<lambda>(g, e). length (stdin g))") (auto dest: combat_round_stdin)

declare combat.simps [simp del]

text \<open>
  The constants of \<open>constants.py\<close> for the player, and the state in which
  \<open>Game.__init__\<close> and \<open>setup_game\<close> leave the game once \<open>choose_weapon\<close> has
  returned a weapon name and its damage bonus: the player with that weapon, no
  sidekick, an empty inventory and an empty log.
\<close>

definition PLAYER_INITIAL_HEALTH :: int where "PLAYER_INITIAL_HEALTH = 110"
definition PLAYER_INITIAL_DAMAGE :: int where "PLAYER_INITIAL_DAMAGE = 10"

definition game_after_setup :: "string \<Rightarrow> string \<Rightarrow> int \<Rightarrow> string list \<Rightarrow> rng \<Rightarrow> game" where
  "game_after_setup n weapon_name' weapon_damage ls r =
     \<lparr>player = Character_init n PLAYER_INITIAL_HEALTH PLAYER_INITIAL_DAMAGE
                 (Some weapon_name') weapon_damage 1 0 False,
      sidekicks = [],
      inventory = Inventory_init,
      logger = GameLogger_init,
      game_debug_mode = False,
      stdin = ls,
      rng = r,
      calls = []\<rparr>"

text \<open>
  A game whose inventory holds one Health Potion, the consumable that \<open>add_loot\<close>
  drops, with a player at health 90.
\<close>

definition game_with_potion :: "string list \<Rightarrow> game" where
  "game_with_potion ls =
     \<lparr>player = Character_init ''Hero'' 90 10 (Some ''Rock'') 2 1 0 False,
      sidekicks = [],
      inventory = add_item Inventory_init (Consumable ''Health Potion'' ''Restores 20 health'' 10 20) 1,
      logger = GameLogger_init,
      game_debug_mode = False,
      stdin = ls,
      rng = (\<lambda>n. 1 / 2),
      calls = []\<rparr>"

section \<open>Rounding to doubles\<close>

text \<open>
  Where the arithmetic of doubles agrees with the exact one: integers below \<open>2 ^ 53\<close>
  are doubles, a rounding moves a number by at most half a unit in the last place, and
  the product of an integer below \<open>2 ^ 50\<close> with the double \<open>1.2\<close> truncates to the
  floor of the exact product.
\<close>







lemma bit_length_bounds:
  "0 < n \<Longrightarrow> 2 ^ (bit_length n - 1) \<le> n \<and> n < 2 ^ bit_length n"
proof (induction n rule: bit_length.induct)
  case (1 n)
  show ?case
  proof (cases "n div 2 = 0")
    case True
    with "1.prems" have "n = 1" by presburger
    then show ?thesis by (simp add: bit_length.simps)
  next
    case False
    then have pos: "0 < n div 2" by simp
    from "1.IH" [OF _ pos] "1.prems"
    have ih: "2 ^ (bit_length (n div 2) - 1) \<le> n div 2" "n div 2 < 2 ^ bit_length (n div 2)"
      by auto
    have bl: "bit_length n = Suc (bit_length (n div 2))"
      using "1.prems" by (subst bit_length.simps) simp
    have blpos: "0 < bit_length (n div 2)"
      using pos by (subst bit_length.simps) simp
    then obtain k where k: "bit_length (n div 2) = Suc k" by (cases "bit_length (n div 2)") auto
    from ih k have "2 * 2 ^ k \<le> n" "n < 2 * 2 ^ Suc k" by auto
    then show ?thesis by (simp add: bl k)
  qed
qed

lemma bit_length_le: "n < 2 ^ k \<Longrightarrow> bit_length n \<le> k"
proof (cases "n = 0")
  case True
  then show ?thesis by (simp add: bit_length.simps)
next
  case False
  assume "n < 2 ^ k"
  from bit_length_bounds [of n] False have "2 ^ (bit_length n - 1) \<le> n" by simp
  from this \<open>n < 2 ^ k\<close> have "(2::nat) ^ (bit_length n - 1) < 2 ^ k" by (rule le_less_trans)
  then have "bit_length n - 1 < k" by simp
  then show ?thesis by simp
qed


lemma round_to_double_nonneg:
  assumes "0 \<le> n"
  shows "round_to_double n =
     (let b = bit_length (nat n)
      in if b \<le> 53 then n
         else
           (let s = b - 53; q = n div 2 ^ s; r = n mod 2 ^ s; half = 2 ^ (s - 1)
            in (if r > half \<or> (r = half \<and> odd q) then q + 1 else q) * 2 ^ s))"
proof (cases "n = 0")
  case True
  then show ?thesis by (simp add: round_to_double_def bit_length.simps)
next
  case False
  with assms have "0 < n" by simp
  then have "\<bar>n\<bar> = n" "sgn n = 1" by simp_all
  then show ?thesis by (simp add: round_to_double_def Let_def)
qed

lemma round_to_double_error:
  assumes "0 \<le> n" "n < 2 ^ (53 + j)"
  shows "\<bar>round_to_double n - n\<bar> * 2 \<le> 2 ^ j"
proof (cases "bit_length (nat n) \<le> 53")
  case True
  then show ?thesis using assms by (simp add: round_to_double_nonneg Let_def)
next
  case False
  define s where "s = bit_length (nat n) - 53"
  define q where "q = n div 2 ^ s"
  define r where "r = n mod 2 ^ s"
  from False have spos: "0 < s" by (simp add: s_def)
  from assms have "nat n < 2 ^ (53 + j)" by (simp add: nat_less_iff)
  then have "bit_length (nat n) \<le> 53 + j" by (rule bit_length_le)
  then have sj: "s \<le> j" by (simp add: s_def)
  have npos: "0 < n" using False assms by (cases "n = 0") (auto simp: bit_length.simps)
  have n_eq: "n = q * 2 ^ s + r" unfolding q_def r_def by (rule div_mult_mod_eq [symmetric])
  have r0: "0 \<le> r" and r1: "r < 2 ^ s" by (simp_all add: r_def)
  define hf :: int where "hf = 2 ^ (s - 1)"
  have two: "(2::int) ^ s = 2 * hf" using spos by (cases s) (auto simp: hf_def)
  define R where "R = round_to_double n"
  have rd0: "R = (if r > 2 ^ (s - 1) \<or> (r = 2 ^ (s - 1) \<and> odd q) then q + 1 else q) * 2 ^ s"
    using False assms
    by (simp add: R_def round_to_double_nonneg Let_def s_def q_def r_def)
  have rd: "R = (if r > hf \<or> (r = hf \<and> odd q) then q + 1 else q) * (2 * hf)"
    using rd0 unfolding hf_def [symmetric] two .
  have n_eq': "n = q * (2 * hf) + r" using n_eq two by simp
  have "\<bar>R - n\<bar> \<le> hf"
  proof (cases "r > hf \<or> (r = hf \<and> odd q)")
    case True
    then have "R = (q + 1) * (2 * hf)" by (simp only: rd if_True)
    then have "R - n = 2 * hf - r" using n_eq' by (simp add: algebra_simps)
    moreover have "hf \<le> r" using True by auto
    moreover have "r < 2 * hf" using r1 two by simp
    ultimately show ?thesis by simp
  next
    case False
    then have "R = q * (2 * hf)" by (simp only: rd if_False)
    then have "R - n = - r" using n_eq' by (simp add: algebra_simps)
    moreover have "r \<le> hf" using False by auto
    ultimately show ?thesis using r0 by simp
  qed
  then have "\<bar>round_to_double n - n\<bar> * 2 \<le> 2 ^ s"
    using two by (simp add: R_def)
  also have "(2::int) ^ s \<le> 2 ^ j" using sj by simp
  finally show ?thesis .
qed





text \<open>
  The conversion of an integer below \<open>2 ^ 1023\<close> in absolute value returns, and so do
  its products with the floats 1.2 and 0.25: the rounding moves an integer by at most
  half a unit of its last place.
\<close>

lemma round_to_double_ge_0: "0 \<le> n \<Longrightarrow> 0 \<le> round_to_double n"
  by (auto simp: round_to_double_nonneg Let_def pos_imp_zdiv_nonneg_iff
      intro!: mult_nonneg_nonneg add_nonneg_nonneg)

lemma round_to_double_sgn: "round_to_double n = sgn n * round_to_double \<bar>n\<bar>"
proof (cases "n = 0")
  case True
  then show ?thesis by (simp add: round_to_double_def bit_length.simps)
next
  case False
  then have "sgn \<bar>n\<bar> = 1" by simp
  then show ?thesis
    by (simp add: round_to_double_def Let_def mult_sgn_abs)
qed

lemma abs_round_to_double: "\<bar>round_to_double n\<bar> = round_to_double \<bar>n\<bar>"
proof (cases "n = 0")
  case True
  then show ?thesis by (simp add: round_to_double_def bit_length.simps)
next
  case False
  have "0 \<le> round_to_double \<bar>n\<bar>" by (rule round_to_double_ge_0) simp
  with False show ?thesis
    by (subst round_to_double_sgn) (simp add: abs_mult)
qed

lemma round_to_double_abs_bound:
  assumes "\<bar>n\<bar> < 2 ^ (53 + j)"
  shows "\<bar>round_to_double n\<bar> * 2 \<le> 2 * \<bar>n\<bar> + 2 ^ j"
proof -
  define c :: int where "c = 2 ^ j"
  define m where "m = \<bar>n\<bar>"
  define a where "a = round_to_double m"
  have "0 \<le> \<bar>n\<bar>" by simp
  from round_to_double_error [OF this assms]
  have "\<bar>a - m\<bar> * 2 \<le> c" by (simp add: a_def c_def m_def)
  moreover define d where "d = a - m"
  ultimately have "\<bar>d\<bar> * 2 \<le> c" by simp
  then have "d * 2 \<le> c" by linarith
  then have "a * 2 \<le> 2 * m + c" by (simp add: d_def)
  then show ?thesis by (simp add: abs_round_to_double a_def c_def m_def)
qed

lemma float_of_int_in_range:
  assumes "\<bar>x\<bar> < 2 ^ 1023"
  shows "float_of_int x = Inr (round_to_double x)"
    and "\<bar>round_to_double x\<bar> * 2 \<le> 2 * \<bar>x\<bar> + 2 ^ 970"
proof -
  have a1: "\<bar>x\<bar> < 2 ^ (53 + 970)" using assms by simp
  from round_to_double_abs_bound [OF a1]
  show b: "\<bar>round_to_double x\<bar> * 2 \<le> 2 * \<bar>x\<bar> + 2 ^ 970" .
  have "\<bar>round_to_double x\<bar> * 2 < 2 * 2 ^ 1023 + 2 ^ 970"
    using b assms by simp
  then have "\<not> 2 ^ 1024 \<le> \<bar>round_to_double x\<bar>" by simp
  then show "float_of_int x = Inr (round_to_double x)"
    by (simp add: float_of_int_def Let_def)
qed


lemma int_times_float_0_25_in_range:
  assumes "\<bar>x\<bar> < 2 ^ 1023"
  shows "\<exists>y. int_times_float x float_0_25 = Inr y"
proof -
  define h where "h = round_to_double x"
  note f = float_of_int_in_range [OF assms, folded h_def]
  have hb: "\<bar>h\<bar> < 2 ^ (53 + 971)" using f(2) assms by simp
  from round_to_double_abs_bound [OF hb]
  have "\<bar>round_to_double h\<bar> * 2 \<le> 2 * \<bar>h\<bar> + 2 ^ 971" .
  with hb have "\<not> 2 ^ (1024 + 2) \<le> \<bar>round_to_double h\<bar>"
    by simp
  then show ?thesis
    by (simp add: int_times_float_def float_0_25_def f(1) Let_def)
qed





section \<open>Properties of characters\<close>

text \<open>
  C9. For every character and every integer \<open>d\<close>, also one greater than the current
  health and a negative one, \<open>take_damage d\<close> sets the health to
  \<open>max 0 (health - d)\<close>, so the health is never negative after the call.
\<close>

theorem take_damage_clamps:
  "health (take_damage c d) = max 0 (health c - d) \<and> 0 \<le> health (take_damage c d)"
  by (simp add: take_damage_def set_health_def get_health_def)

subsection \<open>Levelling\<close>




text \<open>
  The invariant \<open>experience_to_next_level = 100 * level\<close> holds after the
  constructor and is kept by \<open>gain_experience\<close>.
\<close>

lemma Character_init_invariant:
  "experience_to_next_level (Character_init n h d wn wd lv xp dbg) = 100 * level (Character_init n h d wn wd lv xp dbg)"
  by (simp add: Character_init_def)

lemma gain_experience_invariant:
  "experience_to_next_level c = 100 * level c \<Longrightarrow>
   gain_experience c a = Inr (lv, c') \<Longrightarrow>
   experience_to_next_level c' = 100 * level c'"
  by (auto simp add: gain_experience_def level_up_def Let_def
      calculate_experience_to_next_level_def split: if_splits sum.splits)







subsection \<open>The attack of a villain\<close>





subsection \<open>The support ability of a sidekick\<close>


lemma lower_Nil: "lower s = [] \<longleftrightarrow> s = []"
  by (simp add: lower_def)

lemma use_support_ability_in_range:
  assumes "\<bar>health t\<bar> < 2 ^ 1023"
  shows "\<exists>t' lg'. use_support_ability s t lg = Inr (t', lg')"
proof -
  from assms have "float_of_int (health t) = Inr (round_to_double (health t))"
    by (rule float_of_int_in_range)
  then show ?thesis
    by (simp add: use_support_ability_def Let_def getattr_max_health_def py_min_cap_def
        get_health_def)
qed




section \<open>Properties of the inventory\<close>

subsection \<open>Removing items\<close>

lemma remove_item_fails:
  assumes "map_of (items invt) n = None \<or> (\<exists>st. map_of (items invt) n = Some st \<and> quantity st < q)"
  shows "remove_item invt n q = (False, invt)"
  using assms by (auto simp: remove_item_def)

lemma remove_item_succeeds:
  assumes "map_of (items invt) n = Some st" and "q \<le> quantity st"
  shows "fst (remove_item invt n q)"
    and "map_of (items (snd (remove_item invt n q))) =
           (map_of (items invt))(n := if quantity st - q = 0 then None
                                      else Some (st\<lparr>quantity := quantity st - q\<rparr>))"
    and "gold (snd (remove_item invt n q)) = gold invt"
    and "equipment_weapon (snd (remove_item invt n q)) = equipment_weapon invt"
    and "equipment_armor (snd (remove_item invt n q)) = equipment_armor invt"
  using assms
  by (auto simp: remove_item_def Let_def update_conv' delete_conv')

text \<open>
  C8. \<open>remove_item name qty\<close> returns false and leaves the inventory as it is when no
  stack of that name exists or when its quantity is less than \<open>qty\<close>. Otherwise it
  returns true, the quantity of the stack is lowered by \<open>qty\<close>, the entry is deleted
  exactly when the quantity reaches zero, and no other entry, the gold or the equipment
  changes. Hence every call keeps the invariant that all quantities are positive.
\<close>

theorem remove_item_correct:
  "(map_of (items invt) n = None \<longrightarrow> remove_item invt n q = (False, invt))
   \<and> (\<forall>st. map_of (items invt) n = Some st \<and> quantity st < q \<longrightarrow>
          remove_item invt n q = (False, invt))
   \<and> (\<forall>st. map_of (items invt) n = Some st \<and> q \<le> quantity st \<longrightarrow>
          fst (remove_item invt n q)
          \<and> map_of (items (snd (remove_item invt n q))) =
               (map_of (items invt))(n := if quantity st - q = 0 then None
                                          else Some (st\<lparr>quantity := quantity st - q\<rparr>))
          \<and> gold (snd (remove_item invt n q)) = gold invt
          \<and> equipment_weapon (snd (remove_item invt n q)) = equipment_weapon invt
          \<and> equipment_armor (snd (remove_item invt n q)) = equipment_armor invt)
   \<and> (quantities_positive invt \<longrightarrow> quantities_positive (snd (remove_item invt n q)))"
proof (intro conjI allI impI)
  assume "map_of (items invt) n = None"
  then show "remove_item invt n q = (False, invt)" by (simp add: remove_item_fails)
next
  fix st assume "map_of (items invt) n = Some st \<and> quantity st < q"
  then show "remove_item invt n q = (False, invt)" by (auto intro: remove_item_fails)
next
  fix st assume a: "map_of (items invt) n = Some st \<and> q \<le> quantity st"
  then have s: "map_of (items invt) n = Some st" and l: "q \<le> quantity st" by simp_all
  show "fst (remove_item invt n q)" by (rule remove_item_succeeds(1) [OF s l])
  show "map_of (items (snd (remove_item invt n q))) =
               (map_of (items invt))(n := if quantity st - q = 0 then None
                                          else Some (st\<lparr>quantity := quantity st - q\<rparr>))"
    by (rule remove_item_succeeds(2) [OF s l])
  show "gold (snd (remove_item invt n q)) = gold invt" by (rule remove_item_succeeds(3) [OF s l])
  show "equipment_weapon (snd (remove_item invt n q)) = equipment_weapon invt"
    by (rule remove_item_succeeds(4) [OF s l])
  show "equipment_armor (snd (remove_item invt n q)) = equipment_armor invt"
    by (rule remove_item_succeeds(5) [OF s l])
next
  assume p: "quantities_positive invt"
  show "quantities_positive (snd (remove_item invt n q))"
  proof (cases "map_of (items invt) n")
    case None
    then show ?thesis using p by (simp add: remove_item_fails)
  next
    case (Some st)
    show ?thesis
    proof (cases "q \<le> quantity st")
      case False
      then have "remove_item invt n q = (False, invt)" using Some by (auto intro: remove_item_fails)
      then show ?thesis using p by simp
    next
      case True
      show ?thesis
        unfolding quantities_positive_def remove_item_succeeds(2) [OF Some True]
        using p True by (auto simp: quantities_positive_def split: if_splits)
    qed
  qed
qed

text \<open>
  The scenario of the specification: against a single Potion, removing 2 fails and
  leaves the stack at quantity 1; removing 1 succeeds and deletes the entry.
\<close>

theorem remove_item_correct_witness:
  "map_of (items (add_item Inventory_init (Consumable ''Potion'' ''Restores 20 health'' 10 20) 1)) ''Potion''
     = Some \<lparr>item = Consumable ''Potion'' ''Restores 20 health'' 10 20, quantity = 1\<rparr>
   \<and> remove_item (add_item Inventory_init (Consumable ''Potion'' ''Restores 20 health'' 10 20) 1) ''Potion'' 2
     = (False, add_item Inventory_init (Consumable ''Potion'' ''Restores 20 health'' 10 20) 1)
   \<and> fst (remove_item (add_item Inventory_init (Consumable ''Potion'' ''Restores 20 health'' 10 20) 1) ''Potion'' 1)
   \<and> map_of (items (snd (remove_item (add_item Inventory_init
          (Consumable ''Potion'' ''Restores 20 health'' 10 20) 1) ''Potion'' 1))) ''Potion'' = None
   \<and> quantities_positive (add_item Inventory_init (Consumable ''Potion'' ''Restores 20 health'' 10 20) 1)
   \<and> quantities_positive (snd (remove_item (add_item Inventory_init
          (Consumable ''Potion'' ''Restores 20 health'' 10 20) 1) ''Potion'' 1))"
proof -
  define potion where "potion = Consumable ''Potion'' ''Restores 20 health'' 10 20"
  define inv1 where "inv1 = add_item Inventory_init potion 1"
  have i: "items inv1 = [(''Potion'', \<lparr>item = potion, quantity = 1\<rparr>)]"
    by (simp add: inv1_def add_item_def Inventory_init_def potion_def)
  have m: "map_of (items inv1) ''Potion'' = Some \<lparr>item = potion, quantity = 1\<rparr>"
    by (simp add: i)
  have p: "quantities_positive inv1"
    by (simp add: quantities_positive_def i)
  from remove_item_correct [of inv1 "''Potion''" 2] m
  have f: "remove_item inv1 ''Potion'' 2 = (False, inv1)" by simp
  from remove_item_correct [of inv1 "''Potion''" 1] m p
  have s: "fst (remove_item inv1 ''Potion'' 1)"
    "map_of (items (snd (remove_item inv1 ''Potion'' 1))) ''Potion'' = None"
    "quantities_positive (snd (remove_item inv1 ''Potion'' 1))"
    by simp_all
  show ?thesis
    using m f s p unfolding inv1_def potion_def by simp
qed

subsection \<open>The total value\<close>

lemma get_total_value_cases:
  "get_total_value invt = (if items invt = [] then Inr (gold invt) else Inl AttributeError)"
  by (cases "items invt") (auto simp: get_total_value_def Let_def)

text \<open>
  C1 on the code: \<open>get_total_value\<close> returns the gold for an inventory without items
  (\<open>get_total_value_cases\<close>), but with at least one stack the loop reads the attribute
  \<open>value\<close> of a dictionary key, a string, and the call raises \<open>AttributeError\<close>
  where C1 expects gold plus the value of the stacks. Here for the inventory that holds
  one Health Potion of value 10.
\<close>

theorem get_total_value_raises:
  "items (add_item Inventory_init (Consumable ''Health Potion'' ''Restores 20 health'' 10 20) 1) =
     [(''Health Potion'', \<lparr>item = Consumable ''Health Potion'' ''Restores 20 health'' 10 20, quantity = 1\<rparr>)]
   \<and> get_total_value (add_item Inventory_init (Consumable ''Health Potion'' ''Restores 20 health'' 10 20) 1)
     = Inl AttributeError"
  by (simp add: get_total_value_def add_item_def Inventory_init_def Let_def)

subsection \<open>Equipping\<close>

text \<open>
  C10. \<open>equip_item\<close> changes the weapon slot for a weapon, the armor slot for an armor
  and nothing for any other item; the items and the gold stay as they are. It has no
  access to a character: in a game whose inventory is replaced by the one after
  \<open>equip_item\<close>, the player and the sidekicks are the same, and so are the results of
  \<open>calculate_damage\<close> and of the attack of the player, which read the weapon of the
  character and not the equipment of the inventory.
\<close>

theorem equip_item_frame:
  "items (snd (equip_item invt it)) = items invt
   \<and> gold (snd (equip_item invt it)) = gold invt
   \<and> (is_Weapon it \<longrightarrow>
        equip_item invt it = (True, invt\<lparr>equipment_weapon := Some it\<rparr>))
   \<and> (\<not> is_Weapon it \<and> is_Armor it \<longrightarrow>
        equip_item invt it = (True, invt\<lparr>equipment_armor := Some it\<rparr>))
   \<and> (\<not> is_Weapon it \<and> \<not> is_Armor it \<longrightarrow> equip_item invt it = (False, invt))
   \<and> (\<forall>g. inventory g = invt \<longrightarrow>
         player (g\<lparr>inventory := snd (equip_item invt it)\<rparr>) = player g
         \<and> sidekicks (g\<lparr>inventory := snd (equip_item invt it)\<rparr>) = sidekicks g
         \<and> (\<forall>b. calculate_damage (player (g\<lparr>inventory := snd (equip_item invt it)\<rparr>)) b
                = calculate_damage (player g) b)
         \<and> (\<forall>e lg. attack_enemy (player (g\<lparr>inventory := snd (equip_item invt it)\<rparr>)) e lg
                = attack_enemy (player g) e lg))"
  by (simp add: equip_item_def)

text \<open>
  Equipping a weapon of bonus 100 in the inventory of a new game leaves the damage of
  the player, who holds a Rock of bonus 2, at 12; an armor goes to the armor slot and a
  potion is rejected.
\<close>

theorem equip_item_frame_witness:
  "equip_item Inventory_init (WeaponItem \<lparr>weapon_name = ''Great Axe'', damage_bonus = 100\<rparr>)
     = (True, Inventory_init\<lparr>equipment_weapon :=
          Some (WeaponItem \<lparr>weapon_name = ''Great Axe'', damage_bonus = 100\<rparr>)\<rparr>)
   \<and> equip_item Inventory_init (Armor ''Goblin King's Armor'' ''Armor dropped by Goblin King'' 50 4)
     = (True, Inventory_init\<lparr>equipment_armor :=
          Some (Armor ''Goblin King's Armor'' ''Armor dropped by Goblin King'' 50 4)\<rparr>)
   \<and> equip_item Inventory_init (Consumable ''Health Potion'' ''Restores 20 health'' 10 20)
     = (False, Inventory_init)
   \<and> calculate_damage
        (player ((game_after_setup ''Hero'' ''Rock'' 2 [] (\<lambda>n. 1 / 2))
           \<lparr>inventory := snd (equip_item Inventory_init
              (WeaponItem \<lparr>weapon_name = ''Great Axe'', damage_bonus = 100\<rparr>))\<rparr>)) 10 = 12"
proof -
  have i: "inventory (game_after_setup ''Hero'' ''Rock'' 2 [] (\<lambda>n. 1 / 2)) = Inventory_init"
    by (simp add: game_after_setup_def)
  have c: "calculate_damage (player (game_after_setup ''Hero'' ''Rock'' 2 [] (\<lambda>n. 1 / 2))) 10 = 12"
    by (simp add: game_after_setup_def Character_init_def make_weapon_def calculate_damage_def)
  from equip_item_frame [of Inventory_init "WeaponItem \<lparr>weapon_name = ''Great Axe'', damage_bonus = 100\<rparr>"]
    equip_item_frame [of Inventory_init "Armor ''Goblin King's Armor'' ''Armor dropped by Goblin King'' 50 4"]
    equip_item_frame [of Inventory_init "Consumable ''Health Potion'' ''Restores 20 health'' 10 20"]
    i c
  show ?thesis by simp
qed

section \<open>Properties of the turn loop\<close>

text \<open>Evaluation of the menu options and of the lines typed.\<close>

lemma str_1: "str (Suc 0) = ''1''"
  by code_simp

lemma str_3: "str (Suc (Suc (Suc 0))) = ''3''" by code_simp
lemma str_4: "str (Suc (Suc (Suc (Suc 0)))) = ''4''" by code_simp
lemma strip_digit: "strip ''1'' = ''1''" "strip ''2'' = ''2''" "strip ''3'' = ''3''" "strip ''4'' = ''4''"
  by code_simp+

lemma combat_options_no_sidekick:
  "sidekicks g = [] \<Longrightarrow> combat_options g = ([''1'', ''2'', ''3''], ''3'')"
  by (simp add: combat_options_def str_3 Let_def)

lemma combat_options_sidekick:
  "sidekicks g \<noteq> [] \<Longrightarrow> combat_options g = ([''1'', ''2'', ''3'', ''4''], ''4'')"
  by (simp add: combat_options_def str_4 Let_def)

subsection \<open>Using an item\<close>

lemma use_item_cases:
  "use_item g =
     (if filter is_Consumable (map (\<lambda>(item_name', item_data). item item_data) (items (inventory g))) = []
      then Inr g
      else case get_valid_input (stdin g)
                  (map (\<lambda>i. str (i + 1))
                     [0..<length (filter is_Consumable
                        (map (\<lambda>(item_name', item_data). item item_data) (items (inventory g))))]) of
             Inl err \<Rightarrow> Inl err
           | Inr choice \<Rightarrow> Inl TypeError)"
  by (simp add: use_item_def Let_def split: sum.splits prod.splits)

text \<open>
  C2 on the code: \<open>use_item\<close> returns normally only when the inventory holds no
  consumable (\<open>use_item_cases\<close>). With a consumable it indexes the list of consumables
  with the string that \<open>get_valid_input\<close> returned and raises \<open>TypeError\<close>. Here
  for the game with one Health Potion and the input line \<open>1\<close>.
\<close>

theorem use_item_raises:
  "use_item (game_with_potion [''1'']) = Inl TypeError"
  by (simp add: use_item_def game_with_potion_def add_item_def Inventory_init_def Let_def str_1 strip_digit)

subsection \<open>Winning an encounter\<close>

lemma attack_enemy_result:
  "attack_enemy p e lg = (d, e', lg') \<Longrightarrow>
     d = calculate_damage p (damage p)
     \<and> enemy_health e' = max 0 (enemy_health e - d)
     \<and> enemy_damage e' = enemy_damage e
     \<and> enemy_name e' = enemy_name e"
  by (cases e)
    (auto simp: Character_attack_def Let_def take_damage_def set_health_def get_health_def)

lemma gold_add_item: "gold (add_item invt it q) = gold invt"
  by (simp add: add_item_def split: option.splits)

lemma add_loot_frame:
  "player (add_loot g e) = player g"
  "gold (inventory (add_loot g e)) = gold (inventory g) + enemy_damage e * 5"
  "calls (add_loot g e) = calls g @ [AddLoot]"
  "stdin (add_loot g e) = stdin g"
  "logger (add_loot g e) = logger g"
  "sidekicks (add_loot g e) = sidekicks g"
  by (simp_all add: add_loot_def Let_def gold_add_item split: prod.splits)




text \<open>
  The whole scenario of the specification, run through the loop: the player attacks
  the Goblin King (health 50, damage 8) five times, dealing 12 each time, and is hit
  four times for 8. The encounter is won with 80 experience, 40 gold and the player at
  health 78, whatever the random source; the log holds the nine attacks.
\<close>

lemma combat_scenario:
  "\<exists>g' e'. combat (game_after_setup ''Hero'' ''Rock'' 2 [''1'', ''1'', ''1'', ''1'', ''1''] r)
        (Boss (Boss_init ''Goblin King'' 50 8 None 0)) = Inr (Some True, g', e')
     \<and> experience (player g') = 80 \<and> health (player g') = 78 \<and> gold (inventory g') = 40
     \<and> length (log_history (logger g')) = 9"
  apply (subst combat.simps, simp add: combat_round_def combat_options_no_sidekick game_after_setup_def
      strip_digit Let_def split_beta Character_attack_def Boss_init_def Character_init_def
      make_weapon_def PLAYER_INITIAL_HEALTH_def PLAYER_INITIAL_DAMAGE_def get_health_def
      calculate_damage_def take_damage_def set_health_def log_combat_def enemy_turn_def
      GameLogger_init_def Inventory_init_def gain_experience_def add_loot_frame)+
  done

subsection \<open>The turn of the enemy\<close>

text \<open>
  What a round calls, by the action chosen. Viewing the inventory and using an item
  when there is no consumable call nothing of the enemy and go on with the loop; an
  attack that leaves the enemy alive and the action of the sidekick are followed by
  exactly one attack of the enemy, for an enemy of damage below \<open>2 ^ 1023\<close> and, with
  the sidekick, a player of health below \<open>2 ^ 1023\<close> in absolute value (the bounds within
  which the attack of a villain and the heal return). Using an item when there is a
  consumable ends the round with an exception.
\<close>

lemma enemy_attack_in_range:
  assumes "\<bar>enemy_damage e\<bar> < 2 ^ 1023"
  shows "\<exists>d p' lg' r'. enemy_attack e t lg r = Inr ((d, p', lg'), r')"
proof (cases e)
  case (Boss b)
  then show ?thesis by (cases "Character_attack b t lg") auto
next
  case (Villain v)
  with assms have "\<bar>damage v\<bar> < 2 ^ 1023" by simp
  from int_times_float_0_25_in_range [OF this]
  obtain y where "int_times_float (damage v) float_0_25 = Inr y" by blast
  with Villain show ?thesis
    by (cases "use_special_ability v t lg")
      (auto simp: Villain_attack_def Let_def random_def)
qed

lemma enemy_turn_alive:
  assumes "0 < enemy_health e" and "\<bar>enemy_damage e\<bar> < 2 ^ 1023"
  shows "\<exists>b g'. enemy_turn g e = Inr (b, g', e) \<and> calls g' = calls g @ [EnemyAttack]
           \<and> (b = None \<or> b = Some False)"
proof -
  from enemy_attack_in_range [OF assms(2)]
  obtain d p' lg' r' where "enemy_attack e (player g) (logger g) (rng g) = Inr ((d, p', lg'), r')"
    by blast
  with assms(1) show ?thesis
    by (auto simp: enemy_turn_def Let_def)
qed

lemma combat_round_view_inventory:
  assumes "get_valid_input (stdin g) (fst (combat_options g)) = Inr (choice, rest)"
    and "choice = snd (combat_options g)"
  shows "combat_round g e = Inr (None, g\<lparr>stdin := rest, calls := calls g @ [ViewInventory]\<rparr>, e)"
proof (cases "sidekicks g = []")
  case True
  with assms show ?thesis
    by (simp add: combat_round_def combat_options_no_sidekick Let_def)
next
  case False
  with assms show ?thesis
    by (simp add: combat_round_def combat_options_sidekick Let_def)
qed

lemma combat_round_use_item_no_consumable:
  assumes "get_valid_input (stdin g) (fst (combat_options g)) = Inr (''2'', rest)"
    and "filter is_Consumable (map (\<lambda>(item_name', item_data). item item_data) (items (inventory g))) = []"
  shows "combat_round g e = Inr (None, g\<lparr>stdin := rest, calls := calls g @ [UseItem]\<rparr>, e)"
  using assms
  by (simp add: combat_round_def use_item_cases Let_def split_beta)

lemma combat_round_use_item_consumable:
  assumes "get_valid_input (stdin g) (fst (combat_options g)) = Inr (''2'', rest)"
    and "filter is_Consumable (map (\<lambda>(item_name', item_data). item item_data) (items (inventory g))) \<noteq> []"
  shows "\<exists>err. combat_round g e = Inl err"
  using assms
  by (simp add: combat_round_def use_item_cases Let_def split_beta split: sum.splits)

lemma combat_round_attack_survives:
  assumes "get_valid_input (stdin g) (fst (combat_options g)) = Inr (''1'', rest)"
    and "calculate_damage (player g) (damage (player g)) < enemy_health e"
    and "\<bar>enemy_damage e\<bar> < 2 ^ 1023"
  shows "\<exists>b g' e'. combat_round g e = Inr (b, g', e')
           \<and> calls g' = calls g @ [PlayerAttack, EnemyAttack] \<and> (b = None \<or> b = Some False)"
proof -
  obtain d e' lg' where att: "attack_enemy (player g) e (logger g) = (d, e', lg')"
    by (cases "attack_enemy (player g) e (logger g)") auto
  from attack_enemy_result [OF att] assms(2,3)
  have e': "0 < enemy_health e'" "\<bar>enemy_damage e'\<bar> < 2 ^ 1023" by auto
  define g1 where "g1 = g\<lparr>stdin := rest, logger := lg', calls := calls g @ [PlayerAttack]\<rparr>"
  have round: "combat_round g e = enemy_turn g1 e'"
    using assms(1) att e'
    by (simp add: combat_round_def Let_def g1_def split_beta)
  from enemy_turn_alive [OF e', of g1] show ?thesis
    unfolding round by (auto simp: g1_def)
qed

lemma combat_round_sidekick:
  assumes "get_valid_input (stdin g) (fst (combat_options g)) = Inr (''3'', rest)"
    and "sidekicks g \<noteq> []" and "0 < enemy_health e"
    and "\<bar>enemy_damage e\<bar> < 2 ^ 1023" and "\<bar>health (player g)\<bar> < 2 ^ 1023"
  shows "\<exists>b g'. combat_round g e = Inr (b, g', e)
           \<and> calls g' = calls g @ [SidekickAction, EnemyAttack] \<and> (b = None \<or> b = Some False)"
proof -
  from use_support_ability_in_range [OF assms(5)]
  obtain p' lg' where sup: "use_support_ability (hd (sidekicks g)) (player g) (logger g) = Inr (p', lg')"
    by blast
  define g1 where "g1 = g\<lparr>stdin := rest, player := p', logger := lg', calls := calls g @ [SidekickAction]\<rparr>"
  have round: "combat_round g e = enemy_turn g1 e"
    using assms(1,2) sup
    by (simp add: combat_round_def Let_def g1_def split_beta)
  from enemy_turn_alive [OF assms(3,4), of g1] show ?thesis
    unfolding round by (auto simp: g1_def)
qed

text \<open>
  C6 on the code: with a Health Potion in the inventory, the round in which the player
  chooses \<open>2\<close> (use item) and then the item \<open>1\<close> does not return to the choice of
  the action: \<open>use_item\<close> raises \<open>TypeError\<close>, and so does the round.
\<close>

theorem combat_round_use_item_raises:
  "combat_round (game_with_potion [''2'', ''1'']) (Boss (Boss_init ''Goblin King'' 50 8 None 0))
     = Inl TypeError"
proof -
  have sk: "sidekicks (game_with_potion [''2'', ''1'']) = []"
    by (simp add: game_with_potion_def)
  have inp: "get_valid_input (stdin (game_with_potion [''2'', ''1'']))
      (fst (combat_options (game_with_potion [''2'', ''1'']))) = Inr (''2'', [''1''])"
    by (simp add: combat_options_no_sidekick [OF sk]) (simp add: game_with_potion_def strip_digit)
  have it: "use_item (game_with_potion [''2'', ''1'']\<lparr>stdin := [''1''], calls := [UseItem]\<rparr>) = Inl TypeError"
    by (simp add: use_item_def game_with_potion_def add_item_def Inventory_init_def Let_def str_1 strip_digit)
  have cl: "calls (game_with_potion [''2'', ''1'']) = []"
    by (simp add: game_with_potion_def)
  show ?thesis
    using inp it by (simp add: combat_round_def Let_def split_beta cl)
qed

end
